theory Spec2Isabelle
  imports Main "HOL-Library.Sublist"
begin

section \<open>Strings\<close>

text \<open>
  Python strings are modelled as \<open>string\<close>; a character stands for one code point
  below 256. The helpers below are the Python string methods that the sources call.
\<close>

text \<open>\<^verbatim>\<open>str.replace(old, new)\<close>: the non-overlapping occurrences of \<open>old\<close>, left to right.\<close>

function replace_from :: "string \<Rightarrow> string \<Rightarrow> string \<Rightarrow> string" where
  "replace_from old new [] = []"
| "replace_from old new (c # cs) =
     (if old \<noteq> [] \<and> prefix old (c # cs)
      then new @ replace_from old new (drop (length old - 1) cs)
      else c # replace_from old new cs)"
  by pat_completeness auto
termination
  by (relation "measure (\<lambda>(old, new, s). length s)") auto

definition replace :: "string \<Rightarrow> string \<Rightarrow> string \<Rightarrow> string" where
  "replace old new s =
     (if old = [] then new @ concat (map (\<lambda>c. c # new) s) else replace_from old new s)"

text \<open>\<^verbatim>\<open>str.lower()\<close> on the letters A to Z.\<close>

definition lower_char :: "char \<Rightarrow> char" where
  "lower_char c =
     (if 65 \<le> (of_char c :: nat) \<and> (of_char c :: nat) \<le> 90
      then char_of ((of_char c :: nat) + 32) else c)"

definition lower :: "string \<Rightarrow> string" where
  "lower s = map lower_char s"

text \<open>\<^verbatim>\<open>sep.join(xs)\<close>.\<close>

fun join :: "string \<Rightarrow> string list \<Rightarrow> string" where
  "join sep [] = []"
| "join sep [x] = x"
| "join sep (x # y # ys) = x @ sep @ join sep (y # ys)"

section \<open>Security configuration (config.py)\<close>

datatype platform = Win32 | Darwin | Linux

text \<open>
  The host the process runs on: \<open>sys.platform\<close>, \<open>Path.home()\<close>,
  \<open>tempfile.gettempdir()\<close>, the file system as seen by
  \<open>str(Path(path).expanduser().resolve())\<close>, and the standard library's
  \<open>fnmatch.fnmatch\<close>. They are parameters of the model.
\<close>

record host =
  sys_platform :: platform
  home :: string
  gettempdir :: string
  resolve :: "string \<Rightarrow> string"
  fnmatch :: "string \<Rightarrow> string \<Rightarrow> bool"

definition DEFAULT_BLOCKED_WINDOWS :: "string list" where
  "DEFAULT_BLOCKED_WINDOWS =
     [''C:/Windows/*'', ''C:/Program Files/*'', ''C:/Program Files (x86)/*'']"

definition DEFAULT_BLOCKED_MACOS :: "string list" where
  "DEFAULT_BLOCKED_MACOS =
     [''/System/*'', ''/Library/*'', ''/Applications/*'', ''/usr/*'', ''/bin/*'',
      ''/sbin/*'', ''/etc/*'', ''/var/*'']"

definition DEFAULT_BLOCKED_LINUX :: "string list" where
  "DEFAULT_BLOCKED_LINUX = [''/usr/*'', ''/bin/*'', ''/sbin/*'', ''/etc/*'', ''/var/*'']"

definition get_default_blocked :: "host \<Rightarrow> string list" where
  "get_default_blocked h =
     (if sys_platform h = Win32 then DEFAULT_BLOCKED_WINDOWS
      else if sys_platform h = Darwin then DEFAULT_BLOCKED_MACOS
      else DEFAULT_BLOCKED_LINUX)"

definition DEFAULT_ALLOWED_WRITE :: "string list" where
  "DEFAULT_ALLOWED_WRITE = [''~/Desktop/*'', ''~/Documents/*'', ''${TEMP}/*'']"

definition expand_pattern :: "host \<Rightarrow> string \<Rightarrow> string" where
  "expand_pattern h pattern =
     (let p1 = (case pattern of
                  c # rest \<Rightarrow> if c = CHR ''~'' then home h @ rest else pattern
                | [] \<Rightarrow> pattern);
          p2 = (if sublist ''${TEMP}'' p1 then replace ''${TEMP}'' (gettempdir h) p1 else p1)
      in replace [CHR 0x5C] ''/'' p2)"

definition normalize_for_match :: "host \<Rightarrow> string \<Rightarrow> string" where
  "normalize_for_match h path =
     (let resolved = resolve h path;
          normalized = replace [CHR 0x5C] ''/'' resolved
      in if sys_platform h = Win32 then lower normalized else normalized)"

definition matches_pattern :: "host \<Rightarrow> string \<Rightarrow> string \<Rightarrow> bool" where
  "matches_pattern h path pattern =
     (let norm_path = normalize_for_match h path;
          norm_pattern = expand_pattern h pattern;
          norm_pattern = (if sys_platform h = Win32 then lower norm_pattern else norm_pattern)
      in fnmatch h norm_path norm_pattern)"

datatype security_mode = Unrestricted | Sandboxed

record SecurityConfig =
  mode :: security_mode
  blocked_patterns :: "string list"
  allowed_write_patterns :: "string list"

text \<open>\<open>SecurityConfig()\<close> with the field defaults.\<close>

definition default_config :: "host \<Rightarrow> SecurityConfig" where
  "default_config h =
     \<lparr>mode = Unrestricted, blocked_patterns = get_default_blocked h,
      allowed_write_patterns = DEFAULT_ALLOWED_WRITE\<rparr>"

definition blocked_expanded :: "host \<Rightarrow> SecurityConfig \<Rightarrow> string list" where
  "blocked_expanded h cfg = map (expand_pattern h) (blocked_patterns cfg)"

definition allowed_write_expanded :: "host \<Rightarrow> SecurityConfig \<Rightarrow> string list" where
  "allowed_write_expanded h cfg = map (expand_pattern h) (allowed_write_patterns cfg)"

text \<open>
  The loop \<^verbatim>\<open>for pattern in patterns: if matches_pattern(path, pattern): return v\<close>:
  \<open>Some v\<close> when the loop returns, \<open>None\<close> when it falls through.
\<close>

fun first_match :: "host \<Rightarrow> string \<Rightarrow> string list \<Rightarrow> bool \<Rightarrow> bool option" where
  "first_match h path [] v = None"
| "first_match h path (pattern # rest) v =
     (if matches_pattern h path pattern then Some v else first_match h path rest v)"

definition is_path_blocked :: "host \<Rightarrow> SecurityConfig \<Rightarrow> string \<Rightarrow> bool \<Rightarrow> bool" where
  "is_path_blocked h cfg path for_write =
     (case first_match h path (blocked_patterns cfg) True of
        Some b \<Rightarrow> b
      | None \<Rightarrow>
          if for_write \<and> mode cfg = Sandboxed
          then (case first_match h path (allowed_write_patterns cfg) False of
                  Some b \<Rightarrow> b
                | None \<Rightarrow> True)
          else False)"

section \<open>Intercepted file open (scripting/executor.py)\<close>

definition WRITE_MODE_CHARS :: "char set" where
  "WRITE_MODE_CHARS = set ''wxa+''"

definition is_write_mode :: "string \<Rightarrow> bool" where
  "is_write_mode m = (set m \<inter> WRITE_MODE_CHARS \<noteq> {})"

datatype open_error = PermissionError string

text \<open>
  \<open>safe_open\<close> as built by \<open>_create_safe_open(config)\<close>: \<open>Inl\<close> is the raised
  \<open>PermissionError\<close>, \<open>Inr (file, mode)\<close> the call delegated to the real \<open>open\<close>.
\<close>

definition safe_open :: "host \<Rightarrow> SecurityConfig \<Rightarrow> string \<Rightarrow> string \<Rightarrow> open_error + (string \<times> string)" where
  "safe_open h config file m =
     (let path_str = file;
          is_write = is_write_mode m
      in if is_path_blocked h config path_str is_write
         then (if is_write \<and> mode config = Sandboxed
               then Inl (PermissionError
                      (''Write access denied: '' @ [CHR 0x27] @ path_str @ [CHR 0x27]
                       @ '' is not in allowed write paths. Allowed: ''
                       @ join '', '' (allowed_write_expanded h config)))
               else Inl (PermissionError
                      (''Access denied: '' @ [CHR 0x27] @ path_str @ [CHR 0x27]
                       @ '' is in a blocked directory. Blocked: ''
                       @ join '', '' (blocked_expanded h config))))
         else Inr (file, m))"

text \<open>
  A concrete host for evaluation: a POSIX machine whose file system has no symbolic
  links, with a matcher for the wildcards \<open>*\<close> and \<open>?\<close>.
\<close>

fun glob_match :: "string \<Rightarrow> string \<Rightarrow> bool" where
  "glob_match [] [] = True"
| "glob_match (c # s) [] = False"
| "glob_match [] (p # ps) = (p = CHR ''*'' \<and> glob_match [] ps)"
| "glob_match (c # s) (p # ps) =
     (if p = CHR ''*'' then glob_match (c # s) ps \<or> glob_match s (p # ps)
      else (p = CHR ''?'' \<or> p = c) \<and> glob_match s ps)"

definition posix_host :: host where
  "posix_host =
     \<lparr>sys_platform = Linux, home = ''/home/user'', gettempdir = ''/tmp'',
      resolve = (\<lambda>p. case p of c # rest \<Rightarrow> if c = CHR ''~'' then ''/home/user'' @ rest else p
                              | [] \<Rightarrow> ''/home/user''),
      fnmatch = glob_match\<rparr>"

section \<open>Script execution (scripting/executor.py, models.py)\<close>

subsection \<open>More string helpers\<close>

text \<open>\<^verbatim>\<open>str.split("\n")\<close>: always at least one piece.\<close>

fun split_lines :: "string \<Rightarrow> string list" where
  "split_lines [] = [[]]"
| "split_lines (c # cs) =
     (if c = CHR 0x0A then [] # split_lines cs
      else (case split_lines cs of
              piece # pieces \<Rightarrow> (c # piece) # pieces
            | [] \<Rightarrow> [[c]]))"

text \<open>The characters below 256 that \<^verbatim>\<open>str.strip()\<close> removes.\<close>

definition is_space :: "char \<Rightarrow> bool" where
  "is_space c =
     (let n = (of_char c :: nat)
      in (9 \<le> n \<and> n \<le> 13) \<or> (28 \<le> n \<and> n \<le> 32) \<or> n = 133 \<or> n = 160)"

definition strip :: "string \<Rightarrow> string" where
  "strip s = rev (dropWhile is_space (rev (dropWhile is_space s)))"

text \<open>\<^verbatim>\<open>str(n)\<close> for an integer: decimal digits, a minus sign when negative.\<close>

fun str_nat :: "nat \<Rightarrow> string" where
  "str_nat n =
     (if n < 10 then [char_of (48 + n)]
      else str_nat (n div 10) @ [char_of (48 + n mod 10)])"

declare str_nat.simps [simp del]

definition str_int :: "int \<Rightarrow> string" where
  "str_int i = (if i < 0 then ''-'' @ str_nat (nat (- i)) else str_nat (nat i))"

text \<open>An \<open>int | None\<close> inside an f-string.\<close>

definition str_opt_int :: "int option \<Rightarrow> string" where
  "str_opt_int x = (case x of None \<Rightarrow> ''None'' | Some i \<Rightarrow> str_int i)"

subsection \<open>Values, results, exceptions\<close>

text \<open>The values a script can leave in \<open>result\<close>: the built-in data types.\<close>

datatype pyval =
    PNone
  | PBool bool
  | PInt int
  | PStr string
  | PList "pyval list"
  | PTuple "pyval list"
  | PDict "(pyval \<times> pyval) list"

record ScriptResult =
  success :: bool
  result :: pyval
  stdout :: string
  error :: "string option"
  execution_time_ms :: int

text \<open>One entry of \<open>traceback.extract_tb\<close>.\<close>

record frame =
  filename :: string
  lineno :: "int option"

text \<open>
  Asking an object for text (\<open>str(exc)\<close>, \<open>type(exc).__name__\<close>, \<open>e.msg\<close> inside an
  f-string) runs code of the object's class: it gives a string or raises.
\<close>

datatype 'e str_result = Str string | Str_Raises 'e

text \<open>
  Where an exception stands with respect to the classes that the \<open>except\<close> clauses of
  \<open>run\<close> name: an instance of \<open>SyntaxError\<close> (with its \<open>lineno\<close> and \<open>msg\<close>), of
  \<open>TimeoutError\<close>, of \<open>Exception\<close> but of neither, or of \<open>BaseException\<close> only
  (\<open>SystemExit\<close>, \<open>KeyboardInterrupt\<close>, \<open>asyncio.CancelledError\<close>).
\<close>

datatype 'e exc_base =
    SyntaxError "int option" "'e str_result"
  | TimeoutError
  | OtherException
  | NotException

text \<open>
  An exception: its place among the classes, \<open>type(exc).__name__\<close>, \<open>str(exc)\<close> and
  \<open>traceback.extract_tb(exc.__traceback__)\<close>, outermost entry first.
\<close>

datatype py_exception =
  Exc (base: "py_exception exc_base")
      (type_name: "py_exception str_result")
      (message: "py_exception str_result")
      (traceback: "frame list")

definition str_value :: "py_exception str_result \<Rightarrow> py_exception + string" where
  "str_value s = (case s of Str x \<Rightarrow> Inr x | Str_Raises e \<Rightarrow> Inl e)"

text \<open>The traceback entry of \<open>run\<close> itself, at a line of executor.py.\<close>

definition run_frame :: "int \<Rightarrow> frame" where
  "run_frame line = \<lparr>filename = ''archicad_mcp/scripting/executor.py'', lineno = Some line\<rparr>"

text \<open>
  The \<open>io.StringIO\<close> behind \<open>print\<close>: open with the text printed so far, or closed.
  \<open>getvalue()\<close> on a closed buffer raises \<open>ValueError\<close>; \<open>line\<close> is the line of the
  call in executor.py.
\<close>

datatype buffer = Open string | Closed

definition closed_file_error :: "int \<Rightarrow> py_exception" where
  "closed_file_error line =
     Exc OtherException (Str ''ValueError'') (Str ''I/O operation on closed file'')
       [run_frame line]"

definition getvalue :: "int \<Rightarrow> buffer \<Rightarrow> py_exception + string" where
  "getvalue line b = (case b of Open s \<Rightarrow> Inr s | Closed \<Rightarrow> Inl (closed_file_error line))"

text \<open>
  What compiling and running the wrapped script did. \<open>Compile_Raised\<close>: the call of
  \<open>compile\<close> raised. \<open>Exec_Raised\<close>: \<open>exec(code, namespace)\<close>, which defines the
  wrapper function and creates the coroutine, raised. \<open>Await_Raised\<close>: awaiting the
  coroutine (under \<open>asyncio.wait_for\<close> when a timeout is set) raised. \<open>Completed\<close>: the
  coroutine returned, with \<open>namespace.get("result")\<close>. The last three carry the output
  buffer as the script left it. The interpreter is a parameter of the model: it is given
  the wrapped source, the configuration from which the namespace is built, and the
  timeout.
\<close>

datatype outcome =
    Compile_Raised py_exception
  | Exec_Raised py_exception buffer
  | Await_Raised py_exception buffer
  | Completed pyval buffer

type_synonym python = "string \<Rightarrow> SecurityConfig \<Rightarrow> int option \<Rightarrow> outcome"



subsection \<open>The executor\<close>

definition MAX_RESULT_ITEMS :: nat where
  "MAX_RESULT_ITEMS = 500"

definition SAMPLE_SIZE :: nat where
  "SAMPLE_SIZE = 50"

definition indent_line :: "string \<Rightarrow> string" where
  "indent_line line = (if strip line \<noteq> [] then ''    '' @ line else line)"

definition wrap_script :: "string \<Rightarrow> string" where
  "wrap_script script =
     (let indented = join [CHR 0x0A] (map indent_line (split_lines script))
      in [CHR 0x0A] @ ''async def __script_main__():'' @ [CHR 0x0A]
         @ ''    result = None'' @ [CHR 0x0A]
         @ indented @ [CHR 0x0A]
         @ ''    globals()['' @ [CHR 0x27] @ ''result'' @ [CHR 0x27] @ ''] = result'' @ [CHR 0x0A]
         @ [CHR 0x0A]
         @ ''__script_result__ = __script_main__()'' @ [CHR 0x0A])"

definition process_result :: "pyval \<Rightarrow> pyval" where
  "process_result r =
     (case r of
        PList xs \<Rightarrow>
          if length xs > MAX_RESULT_ITEMS
          then PDict
            [(PStr ''total'', PInt (int (length xs))),
             (PStr ''sample'', PList (take SAMPLE_SIZE xs)),
             (PStr ''truncated'', PBool True),
             (PStr ''warning'',
              PStr (''Result list has '' @ str_nat (length xs) @ '' items. ''
                    @ ''Showing first '' @ str_nat SAMPLE_SIZE
                    @ ''. Process data in script to return smaller results.''))]
          else r
      | _ \<Rightarrow> r)"

text \<open>
  The loop of \<open>_format_error\<close> over \<open>reversed(tb)\<close>: the first frame of the script file
  that has a line number, less the three wrapper lines.
\<close>

fun find_script_line :: "frame list \<Rightarrow> int option" where
  "find_script_line [] = None"
| "find_script_line (f # fs) =
     (case lineno f of
        Some l \<Rightarrow> if filename f = ''<script>'' then Some (l - 3) else find_script_line fs
      | None \<Rightarrow> find_script_line fs)"

text \<open>
  \<open>_format_error\<close>: \<open>Inl\<close> when \<open>type(exc).__name__\<close> or \<open>str(exc)\<close> raises, in that
  order.
\<close>

definition format_error :: "py_exception \<Rightarrow> string \<Rightarrow> py_exception + string" where
  "format_error exc script =
     (let script_line = find_script_line (rev (traceback exc))
      in case str_value (type_name exc) of
           Inl x \<Rightarrow> Inl x
         | Inr error_type \<Rightarrow>
             (case str_value (message exc) of
                Inl x \<Rightarrow> Inl x
              | Inr error_msg \<Rightarrow>
                  Inr (case script_line of
                         Some n \<Rightarrow>
                           if n \<noteq> 0 \<and> n > 0
                           then (let lines = split_lines script
                                 in if 0 < n \<and> n \<le> int (length lines)
                                    then ''Line '' @ str_int n @ '': '' @ error_type @ '': ''
                                         @ error_msg @ [CHR 0x0A] @ ''  > ''
                                         @ strip (lines ! nat (n - 1))
                                    else ''Line '' @ str_int n @ '': '' @ error_type @ '': ''
                                         @ error_msg)
                           else error_type @ '': '' @ error_msg
                       | None \<Rightarrow> error_type @ '': '' @ error_msg)))"

text \<open>
  The call \<^verbatim>\<open>ScriptResult(success=.., result=.., stdout=stdout_capture.getvalue(),
  error=.., execution_time_ms=int((time.time() - start_time) * 1000))\<close>. The arguments
  are evaluated in this order: the buffer is read (at \<open>line\<close> of executor.py), then the
  error text \<open>err\<close> is built, then the clock is read. \<open>clock\<close> is what the elapsed-time
  expression gives: milliseconds, or the exception it raises. The first one to raise
  ends the call.
\<close>

definition make_result ::
    "bool \<Rightarrow> pyval \<Rightarrow> int \<Rightarrow> buffer \<Rightarrow> py_exception + string option \<Rightarrow> py_exception + int
       \<Rightarrow> py_exception + ScriptResult" where
  "make_result ok r line buf err clock =
     (case getvalue line buf of
        Inl x \<Rightarrow> Inl x
      | Inr out \<Rightarrow>
          (case err of
             Inl x \<Rightarrow> Inl x
           | Inr e \<Rightarrow>
               (case clock of
                  Inl x \<Rightarrow> Inl x
                | Inr ms \<Rightarrow>
                    Inr \<lparr>success = ok, result = r, stdout = out, error = e,
                         execution_time_ms = ms\<rparr>)))"

text \<open>
  The \<open>except\<close> clauses of \<open>run\<close>, in order: \<open>SyntaxError\<close>, then \<open>Exception\<close>; any
  other exception leaves \<open>run\<close> (\<open>Inl\<close>), and so does an exception raised inside a
  clause. In the second clause \<open>_format_error\<close> runs before the result is built.
\<close>

definition handle_exception ::
    "py_exception \<Rightarrow> string \<Rightarrow> buffer \<Rightarrow> py_exception + int \<Rightarrow> py_exception + ScriptResult" where
  "handle_exception e script buf clock =
     (case base e of
        SyntaxError l m \<Rightarrow>
          make_result False PNone 275 buf
            (case str_value m of
               Inl x \<Rightarrow> Inl x
             | Inr msg \<Rightarrow> Inr (Some (''Syntax error at line '' @ str_opt_int l @ '': '' @ msg)))
            clock
      | NotException \<Rightarrow> Inl e
      | _ \<Rightarrow>
          (case format_error e script of
             Inl x \<Rightarrow> Inl x
           | Inr error_msg \<Rightarrow> make_result False PNone 287 buf (Inr (Some error_msg)) clock))"

text \<open>\<^verbatim>\<open>if config is None: config = SecurityConfig()\<close>.\<close>

definition config_or_default :: "host \<Rightarrow> SecurityConfig option \<Rightarrow> SecurityConfig" where
  "config_or_default h config = (case config of None \<Rightarrow> default_config h | Some c \<Rightarrow> c)"

text \<open>
  \<open>ScriptExecutor.run\<close>. Nothing has been printed when \<open>compile\<close> raises. Only the
  \<open>await\<close> stands inside the inner \<open>try\<close> with its \<open>except TimeoutError\<close>, and only when
  a timeout is set. The two \<open>return\<close> statements of the \<open>try\<close> body stand inside the
  outer \<open>try\<close>: an exception raised while their result is built goes to the outer
  \<open>except\<close> clauses.
\<close>

definition run ::
    "host \<Rightarrow> python \<Rightarrow> py_exception + int \<Rightarrow> string \<Rightarrow> int option \<Rightarrow> SecurityConfig option
       \<Rightarrow> py_exception + ScriptResult" where
  "run h py clock script timeout_seconds config =
     (let config = config_or_default h config;
          wrapped_script = wrap_script script
      in case py wrapped_script config timeout_seconds of
           Compile_Raised e \<Rightarrow> handle_exception e script (Open []) clock
         | Exec_Raised e buf \<Rightarrow> handle_exception e script buf clock
         | Await_Raised e buf \<Rightarrow>
             (case timeout_seconds of
                Some t \<Rightarrow>
                  if base e = TimeoutError
                  then (case make_result False PNone 252 buf
                               (Inr (Some (''Script timed out after '' @ str_int t
                                           @ '' seconds'')))
                               clock of
                          Inr res \<Rightarrow> Inr res
                        | Inl x \<Rightarrow> handle_exception x script buf clock)
                  else handle_exception e script buf clock
              | None \<Rightarrow> handle_exception e script buf clock)
         | Completed r buf \<Rightarrow>
             (case make_result True (process_result r) 266 buf (Inr None) clock of
                Inr res \<Rightarrow> Inr res
              | Inl x \<Rightarrow> handle_exception x script buf clock))"


section \<open>Concrete inputs\<close>

text \<open>
  A sandboxed policy whose allowlist overlaps its blocklist: \<open>/etc/*\<close> is both blocked
  and allowed for writing.
\<close>

definition etc_config :: SecurityConfig where
  "etc_config =
     \<lparr>mode = Sandboxed, blocked_patterns = [''/etc/*''],
      allowed_write_patterns = [''/etc/*'', ''~/Desktop/*'']\<rparr>"


definition returns :: "pyval \<Rightarrow> buffer \<Rightarrow> python" where
  "returns r buf src cfg t = Completed r buf"














text \<open>
  The script of \<open>test_syntax_error_reports_line\<close>: its third line, \<^verbatim>\<open>if True\<close>, lacks
  the colon.
\<close>

definition syntax_error_script :: string where
  "syntax_error_script =
     ''x = 1'' @ [CHR 0x0A] @ ''y = 2'' @ [CHR 0x0A] @ ''if True'' @ [CHR 0x0A]
     @ ''    z = 3'' @ [CHR 0x0A]"

text \<open>
  A stand-in for \<open>compile\<close> that knows one malformed statement, an \<^verbatim>\<open>if True\<close>
  without its colon. Like \<open>compile\<close>, it numbers the lines of the text it is given, from
  1; any other text runs to completion.
\<close>

fun missing_colon_line :: "nat \<Rightarrow> string list \<Rightarrow> nat option" where
  "missing_colon_line n [] = None"
| "missing_colon_line n (l # ls) =
     (if strip l = ''if True'' then Some n else missing_colon_line (Suc n) ls)"

definition colon_checking_compile :: python where
  "colon_checking_compile src cfg t =
     (case missing_colon_line 1 (split_lines src) of
        Some n \<Rightarrow>
          Compile_Raised
            (Exc (SyntaxError (Some (int n))
                    (Str (''expected '' @ [CHR 0x27] @ '':'' @ [CHR 0x27])))
                 (Str ''SyntaxError'')
                 (Str (''expected '' @ [CHR 0x27] @ '':'' @ [CHR 0x27]
                       @ '' (<script>, line '' @ str_nat n @ '')''))
                 [run_frame 238])
      | None \<Rightarrow> Completed PNone (Open []))"

section \<open>The path policy\<close>

lemma first_match_eq:
  "first_match h path ps v =
     (if \<exists>p \<in> set ps. matches_pattern h path p then Some v else None)"
  by (induction ps) auto

lemma is_path_blocked_iff:
  "is_path_blocked h cfg path for_write \<longleftrightarrow>
     (\<exists>p \<in> set (blocked_patterns cfg). matches_pattern h path p)
     \<or> (for_write \<and> mode cfg = Sandboxed
        \<and> \<not> (\<exists>p \<in> set (allowed_write_patterns cfg). matches_pattern h path p))"
  by (auto simp add: is_path_blocked_def first_match_eq)

text \<open>
  C1. A path that matches a blocked pattern is denied, for reads and for writes, in both
  modes, whatever the allowed-write list holds (also when the path matches an
  allowed-write pattern): the second conjunct replaces the allowlist by any other.
\<close>

theorem blocked_match_denies:
  "\<exists>p \<in> set (blocked_patterns cfg). matches_pattern h path p \<Longrightarrow>
     is_path_blocked h cfg path for_write
     \<and> is_path_blocked h (cfg\<lparr>allowed_write_patterns := aw\<rparr>) path for_write"
  by (simp add: is_path_blocked_iff)

theorem blocked_match_denies_witness:
  "(\<exists>p \<in> set (blocked_patterns etc_config). matches_pattern posix_host ''/etc/passwd'' p)
   \<and> (\<exists>p \<in> set (allowed_write_patterns etc_config).
         matches_pattern posix_host ''/etc/passwd'' p)
   \<and> is_path_blocked posix_host etc_config ''/etc/passwd'' True"
proof -
  have m: "matches_pattern posix_host ''/etc/passwd'' ''/etc/*''"
    by code_simp
  have b: "\<exists>p \<in> set (blocked_patterns etc_config).
             matches_pattern posix_host ''/etc/passwd'' p"
    using m by (simp add: etc_config_def)
  have a: "\<exists>p \<in> set (allowed_write_patterns etc_config).
             matches_pattern posix_host ''/etc/passwd'' p"
    using m by (simp add: etc_config_def)
  from blocked_match_denies [OF b] a b show ?thesis by blast
qed

text \<open>
  C2. In sandboxed mode a write to a path that matches no allowed-write pattern is
  denied, and a write to a path that matches an allowed-write pattern and no blocked
  pattern is permitted.
\<close>

theorem sandboxed_write:
  "mode cfg = Sandboxed \<Longrightarrow>
     ((\<forall>p \<in> set (allowed_write_patterns cfg). \<not> matches_pattern h path p)
        \<longrightarrow> is_path_blocked h cfg path True)
     \<and> ((\<exists>p \<in> set (allowed_write_patterns cfg). matches_pattern h path p)
          \<and> (\<forall>p \<in> set (blocked_patterns cfg). \<not> matches_pattern h path p)
        \<longrightarrow> \<not> is_path_blocked h cfg path True)"
  by (simp add: is_path_blocked_iff)

theorem sandboxed_write_witness:
  "mode etc_config = Sandboxed
   \<and> \<not> (\<exists>p \<in> set (allowed_write_patterns etc_config).
             matches_pattern posix_host ''/tmp/x.txt'' p)
   \<and> is_path_blocked posix_host etc_config ''/tmp/x.txt'' True
   \<and> (\<exists>p \<in> set (allowed_write_patterns etc_config).
         matches_pattern posix_host ''~/Desktop/out.txt'' p)
   \<and> \<not> (\<exists>p \<in> set (blocked_patterns etc_config).
             matches_pattern posix_host ''~/Desktop/out.txt'' p)
   \<and> \<not> is_path_blocked posix_host etc_config ''~/Desktop/out.txt'' True"
proof -
  have s: "mode etc_config = Sandboxed"
    by (simp add: etc_config_def)
  have a1: "\<forall>p \<in> set (allowed_write_patterns etc_config).
              \<not> matches_pattern posix_host ''/tmp/x.txt'' p"
    by code_simp
  have a2: "\<exists>p \<in> set (allowed_write_patterns etc_config).
              matches_pattern posix_host ''~/Desktop/out.txt'' p"
    by code_simp
  have b2: "\<forall>p \<in> set (blocked_patterns etc_config).
              \<not> matches_pattern posix_host ''~/Desktop/out.txt'' p"
    by code_simp
  from sandboxed_write [OF s, of posix_host "''/tmp/x.txt''"]
       sandboxed_write [OF s, of posix_host "''~/Desktop/out.txt''"] s a1 a2 b2
  show ?thesis by blast
qed

text \<open>
  C3. A write in unrestricted mode and a read in sandboxed mode are blocked exactly when
  the path matches a blocked pattern; the answer is the same for every allowed-write
  list \<open>aw\<close>.
\<close>

theorem allowlist_not_consulted:
  "(mode cfg = Unrestricted \<and> for_write) \<or> (mode cfg = Sandboxed \<and> \<not> for_write) \<Longrightarrow>
     is_path_blocked h (cfg\<lparr>allowed_write_patterns := aw\<rparr>) path for_write
       = (\<exists>p \<in> set (blocked_patterns cfg). matches_pattern h path p)"
  by (auto simp add: is_path_blocked_iff)

theorem allowlist_not_consulted_witness:
  "mode (etc_config\<lparr>mode := Unrestricted\<rparr>) = Unrestricted
   \<and> \<not> is_path_blocked posix_host (etc_config\<lparr>mode := Unrestricted\<rparr>\<lparr>allowed_write_patterns := []\<rparr>)
         ''/tmp/x.txt'' True
   \<and> mode etc_config = Sandboxed
   \<and> \<not> is_path_blocked posix_host (etc_config\<lparr>allowed_write_patterns := []\<rparr>)
         ''/tmp/x.txt'' False"
proof -
  have u: "mode (etc_config\<lparr>mode := Unrestricted\<rparr>) = Unrestricted"
    by simp
  have s: "mode etc_config = Sandboxed"
    by (simp add: etc_config_def)
  have nb: "\<not> (\<exists>p \<in> set (blocked_patterns etc_config).
                 matches_pattern posix_host ''/tmp/x.txt'' p)"
    by code_simp
  have nb': "\<not> (\<exists>p \<in> set (blocked_patterns (etc_config\<lparr>mode := Unrestricted\<rparr>)).
                 matches_pattern posix_host ''/tmp/x.txt'' p)"
    using nb by simp
  from allowlist_not_consulted
         [of "etc_config\<lparr>mode := Unrestricted\<rparr>" True posix_host "[]" "''/tmp/x.txt''"]
       allowlist_not_consulted [of etc_config False posix_host "[]" "''/tmp/x.txt''"]
       u s nb nb'
  show ?thesis by simp
qed

text \<open>
  C10. An open is a write exactly when its mode string holds one of the characters
  \<open>w\<close>, \<open>x\<close>, \<open>a\<close>, \<open>+\<close>; \<open>safe_open\<close> raises exactly when the policy blocks the path
  for that intent. So \<open>r+\<close> is checked as a write (in sandboxed mode against the
  allowlist), and \<open>r\<close> and \<open>rb\<close> are refused only on a blocked-pattern match.
\<close>

theorem write_mode_classification:
  "(is_write_mode m \<longleftrightarrow>
      (\<exists>c \<in> set m. c = CHR ''w'' \<or> c = CHR ''x'' \<or> c = CHR ''a'' \<or> c = CHR ''+''))
   \<and> ((\<exists>e. safe_open h cfg file m = Inl e)
        \<longleftrightarrow> is_path_blocked h cfg file (is_write_mode m))
   \<and> ((\<exists>e. safe_open h cfg file ''r+'' = Inl e) \<longleftrightarrow> is_path_blocked h cfg file True)
   \<and> (m = ''r'' \<or> m = ''rb'' \<longrightarrow>
        ((\<exists>e. safe_open h cfg file m = Inl e)
           \<longleftrightarrow> (\<exists>p \<in> set (blocked_patterns cfg). matches_pattern h file p)))"
proof -
  have w: "is_write_mode m \<longleftrightarrow>
             (\<exists>c \<in> set m. c = CHR ''w'' \<or> c = CHR ''x'' \<or> c = CHR ''a'' \<or> c = CHR ''+'')" for m
    by (auto simp: is_write_mode_def WRITE_MODE_CHARS_def)
  have s: "(\<exists>e. safe_open h cfg file m = Inl e)
             \<longleftrightarrow> is_path_blocked h cfg file (is_write_mode m)" for m
    by (simp add: safe_open_def Let_def)
  have rp: "is_write_mode ''r+''"
    by (simp add: w)
  have r: "m = ''r'' \<or> m = ''rb'' \<Longrightarrow> \<not> is_write_mode m"
    by (auto simp: w)
  show ?thesis using w [of m] s [of m] s [of "''r+''"] rp r
    by (auto simp: is_path_blocked_iff)
qed

theorem write_mode_classification_witness:
  "is_write_mode ''r+''
   \<and> (\<exists>e. safe_open posix_host etc_config ''/tmp/x.txt'' ''r+'' = Inl e)
   \<and> \<not> is_write_mode ''rb''
   \<and> \<not> (\<exists>e. safe_open posix_host etc_config ''/tmp/x.txt'' ''rb'' = Inl e)"
proof -
  have b: "is_path_blocked posix_host etc_config ''/tmp/x.txt'' True"
    by code_simp
  have nb: "\<not> (\<exists>p \<in> set (blocked_patterns etc_config).
                 matches_pattern posix_host ''/tmp/x.txt'' p)"
    by code_simp
  from write_mode_classification [of "''r+''" posix_host etc_config "''/tmp/x.txt''"]
       write_mode_classification [of "''rb''" posix_host etc_config "''/tmp/x.txt''"] b nb
  show ?thesis by simp
qed

section \<open>The wrapper\<close>

text \<open>
  The wrapper puts three lines before the script and four after it, and keeps every line
  of the script on a line of its own: line \<open>k\<close> of the script is line \<open>k + 3\<close> of the
  wrapped source.
\<close>

lemma split_lines_not_Nil: "split_lines s \<noteq> []"
  by (induction s) (auto split: list.splits)

lemma split_lines_append_nl:
  "split_lines (a @ CHR 0x0A # b) = split_lines a @ split_lines b"
  by (induction a) (auto simp: split_lines_not_Nil split: list.splits)

lemma split_lines_no_nl: "CHR 0x0A \<notin> set l \<Longrightarrow> split_lines l = [l]"
  by (induction l) auto

lemma split_lines_pieces: "l \<in> set (split_lines s) \<Longrightarrow> CHR 0x0A \<notin> set l"
proof (induction s arbitrary: l)
  case Nil
  then show ?case by simp
next
  case (Cons c s)
  then show ?case
    by (cases "split_lines s") (auto simp: split_lines_not_Nil split: if_splits)
qed

lemma split_lines_join:
  "ls \<noteq> [] \<Longrightarrow> \<forall>l \<in> set ls. CHR 0x0A \<notin> set l \<Longrightarrow> split_lines (join [CHR 0x0A] ls) = ls"
proof (induction "[CHR 0x0A]" ls rule: join.induct)
  case 1
  then show ?case by simp
next
  case (2 x)
  then show ?case by (simp add: split_lines_no_nl)
next
  case (3 x y ys)
  then show ?case by (simp add: split_lines_append_nl split_lines_no_nl)
qed

lemma indent_line_no_nl: "CHR 0x0A \<notin> set l \<Longrightarrow> CHR 0x0A \<notin> set (indent_line l)"
  by (simp add: indent_line_def)

lemma wrap_script_lines:
  "split_lines (wrap_script script)
     = [[], ''async def __script_main__():'', ''    result = None'']
       @ map indent_line (split_lines script)
       @ [''    globals()['' @ [CHR 0x27] @ ''result'' @ [CHR 0x27] @ ''] = result'', [],
          ''__script_result__ = __script_main__()'', []]"
proof -
  have j: "split_lines (join [CHR 0x0A] (map indent_line (split_lines script)))
             = map indent_line (split_lines script)"
    by (rule split_lines_join)
       (auto simp: split_lines_not_Nil indent_line_no_nl split_lines_pieces)
  have "split_lines (wrap_script script)
          = split_lines ([CHR 0x0A] @ ''async def __script_main__():'' @ [CHR 0x0A]
              @ ''    result = None'')
            @ split_lines (join [CHR 0x0A] (map indent_line (split_lines script)))
            @ split_lines (''    globals()['' @ [CHR 0x27] @ ''result'' @ [CHR 0x27]
                @ ''] = result'' @ [CHR 0x0A] @ [CHR 0x0A]
                @ ''__script_result__ = __script_main__()'' @ [CHR 0x0A])"
    unfolding wrap_script_def Let_def
    using split_lines_append_nl
            [of "[CHR 0x0A] @ ''async def __script_main__():'' @ [CHR 0x0A]
                 @ ''    result = None''"]
          split_lines_append_nl [of "join [CHR 0x0A] (map indent_line (split_lines script))"]
    by simp
  also have "split_lines ([CHR 0x0A] @ ''async def __script_main__():'' @ [CHR 0x0A]
               @ ''    result = None'')
             = [[], ''async def __script_main__():'', ''    result = None'']"
    by code_simp
  also have "split_lines (''    globals()['' @ [CHR 0x27] @ ''result'' @ [CHR 0x27]
               @ ''] = result'' @ [CHR 0x0A] @ [CHR 0x0A]
               @ ''__script_result__ = __script_main__()'' @ [CHR 0x0A])
             = [''    globals()['' @ [CHR 0x27] @ ''result'' @ [CHR 0x27] @ ''] = result'', [],
                ''__script_result__ = __script_main__()'', []]"
    by code_simp
  finally show ?thesis by (simp add: j)
qed

lemma wrap_script_line:
  "k < length (split_lines script) \<Longrightarrow>
     split_lines (wrap_script script) ! (k + 3) = indent_line (split_lines script ! k)"
  by (simp add: wrap_script_lines nth_append)

section \<open>The executor\<close>

lemma make_result_Inr:
  "make_result ok r line buf err clock = Inr res \<longleftrightarrow>
     (\<exists>out e ms. buf = Open out \<and> err = Inr e \<and> clock = Inr ms
        \<and> res = \<lparr>success = ok, result = r, stdout = out, error = e,
                  execution_time_ms = ms\<rparr>)"
  by (auto simp: make_result_def getvalue_def split: buffer.splits sum.splits)

lemma make_result_open:
  "make_result ok r line (Open out) (Inr e) (Inr ms)
     = Inr \<lparr>success = ok, result = r, stdout = out, error = e, execution_time_ms = ms\<rparr>"
  by (simp add: make_result_def getvalue_def)

lemma handle_exception_Inr:
  "handle_exception e script buf clock = Inr res \<Longrightarrow>
     \<not> success res \<and> result res = PNone \<and> error res \<noteq> None"
  by (auto simp: handle_exception_def make_result_Inr split: exc_base.splits sum.splits)





text \<open>
  What \<open>run\<close> returns when \<open>compile\<close> raises a \<open>SyntaxError\<close>: the line number is the
  one that \<open>compile\<close> reports, unchanged.
\<close>

lemma syntax_error_result:
  assumes "py (wrap_script script) (config_or_default h cfg) t = Compile_Raised e"
    and "base e = SyntaxError l (Str m)"
  shows "run h py (Inr ms) script t cfg
           = Inr \<lparr>success = False, result = PNone, stdout = [],
                  error = Some (''Syntax error at line '' @ str_opt_int l @ '': '' @ m),
                  execution_time_ms = ms\<rparr>"
  using assms by (simp add: run_def handle_exception_def str_value_def make_result_open)

text \<open>
  C5. The malformed line is line 3 of the script and line 6 of the wrapped source; the
  error that \<open>run\<close> returns names line 6. The script is not run and \<open>success\<close> is false,
  but the line number is the wrapped one: unlike \<open>_format_error\<close>, the \<open>SyntaxError\<close>
  handler does not subtract the three wrapper lines.
\<close>

theorem syntax_error_reports_wrapped_line:
  "split_lines syntax_error_script ! 2 = ''if True''
   \<and> split_lines (wrap_script syntax_error_script) ! 5 = ''    if True''
   \<and> run posix_host colon_checking_compile (Inr 0) syntax_error_script None None
       = Inr \<lparr>success = False, result = PNone, stdout = [],
              error = Some (''Syntax error at line 6: expected ''
                            @ [CHR 0x27] @ '':'' @ [CHR 0x27]),
              execution_time_ms = 0\<rparr>"
  by code_simp






text \<open>
  C7, as amended. A list of more than 500 elements is replaced by a dictionary with the
  total count, the first 50 elements, \<open>truncated = True\<close> and a warning; a list of at
  most 500 elements and every value that is not a list (a tuple or a string of any
  length too) pass through unchanged. \<open>process_result\<close> has no error result: on the
  built-in values \<open>len\<close> and slicing do not raise.
\<close>

theorem process_result_list:
  "(500 < length xs \<longrightarrow>
      process_result (PList xs) =
        PDict [(PStr ''total'', PInt (int (length xs))),
               (PStr ''sample'', PList (take 50 xs)),
               (PStr ''truncated'', PBool True),
               (PStr ''warning'',
                PStr (''Result list has '' @ str_nat (length xs)
                      @ '' items. Showing first 50. ''
                      @ ''Process data in script to return smaller results.''))])
   \<and> (length xs \<le> 500 \<longrightarrow> process_result (PList xs) = PList xs)
   \<and> ((\<forall>ys. v \<noteq> PList ys) \<longrightarrow> process_result v = v)"
proof -
  have f: "str_nat 50 = ''50''"
    by code_simp
  show ?thesis
    by (cases v) (simp_all add: process_result_def MAX_RESULT_ITEMS_def SAMPLE_SIZE_def f)
qed

theorem process_result_list_witness:
  "process_result (PList (replicate 501 PNone)) =
     PDict [(PStr ''total'', PInt 501),
            (PStr ''sample'', PList (replicate 50 PNone)),
            (PStr ''truncated'', PBool True),
            (PStr ''warning'',
             PStr (''Result list has 501 items. Showing first 50. ''
                   @ ''Process data in script to return smaller results.''))]
   \<and> process_result (PList (replicate 500 PNone)) = PList (replicate 500 PNone)
   \<and> process_result (PStr (replicate 501 CHR ''a'')) = PStr (replicate 501 CHR ''a'')"
proof -
  have n: "str_nat 501 = ''501''"
    by code_simp
  from process_result_list [of "replicate 501 PNone" "PStr (replicate 501 CHR ''a'')"]
       process_result_list [of "replicate 500 PNone" PNone] n
  show ?thesis by simp
qed

text \<open>
  C7 as stated fails: a tuple is a sequence, and a tuple of 501 elements passes through
  unchanged.
\<close>

theorem long_tuple_passes_unchanged:
  "length (replicate 501 (PInt 0)) = 501
   \<and> process_result (PTuple (replicate 501 (PInt 0))) = PTuple (replicate 501 (PInt 0))"
  by (simp add: process_result_def)




text \<open>
  C9. Every \<open>ScriptResult\<close> that \<open>run\<close> returns has \<open>success\<close> false exactly when the
  error is present and the result value is \<open>None\<close>; a successful result has no error.
\<close>

theorem run_result_invariant:
  "run h py clock script t cfg = Inr r \<Longrightarrow>
     (\<not> success r \<longleftrightarrow> error r \<noteq> None \<and> result r = PNone)
     \<and> (success r \<longrightarrow> error r = None)
     \<and> (\<not> success r \<longrightarrow> error r \<noteq> None \<and> result r = PNone)"
proof -
  assume a: "run h py clock script t cfg = Inr r"
  have "(\<not> success r \<and> result r = PNone \<and> error r \<noteq> None) \<or> (success r \<and> error r = None)"
  proof (cases "py (wrap_script script) (config_or_default h cfg) t")
    case (Compile_Raised e)
    with a handle_exception_Inr [of e script "Open []" clock r] show ?thesis
      by (simp add: run_def)
  next
    case (Exec_Raised e buf)
    with a handle_exception_Inr [of e script buf clock r] show ?thesis
      by (simp add: run_def)
  next
    case (Await_Raised e buf)
    with a handle_exception_Inr [of _ script buf clock r] show ?thesis
      by (auto simp: run_def make_result_Inr split: option.splits if_splits sum.splits)
  next
    case (Completed v buf)
    with a handle_exception_Inr [of _ script buf clock r] show ?thesis
      by (auto simp: run_def make_result_Inr split: sum.splits)
  qed
  then show ?thesis by auto
qed

theorem run_result_invariant_witness:
  "run posix_host (returns (PInt 42) (Open [])) (Inr 5) ''result = 42'' None None
     = Inr \<lparr>success = True, result = PInt 42, stdout = [], error = None,
            execution_time_ms = 5\<rparr>
   \<and> error \<lparr>success = True, result = PInt 42, stdout = [], error = None,
            execution_time_ms = 5\<rparr> = None"
proof -
  have r: "run posix_host (returns (PInt 42) (Open [])) (Inr 5) ''result = 42'' None None
             = Inr \<lparr>success = True, result = PInt 42, stdout = [], error = None,
                    execution_time_ms = 5\<rparr>"
    by (simp add: run_def returns_def process_result_def make_result_open)
  from run_result_invariant [OF r] r show ?thesis by simp
qed

end
